theory Spec2Isabelle
  imports Main "HOL-Library.Sublist"
begin

section \<open>The replay worker and the replay repository of optimus\<close>

text \<open>
  The development embeds two Go files: the replay worker (\<^verbatim>\<open>Process\<close>, package
  \<^verbatim>\<open>job\<close>) and the postgres replay repository (\<^verbatim>\<open>fromTreeNode\<close>,
  \<^verbatim>\<open>toTreeNode\<close>, \<^verbatim>\<open>ToSpec\<close>, \<^verbatim>\<open>GetByID\<close>, package \<^verbatim>\<open>postgres\<close>).
\<close>

subsection \<open>Values: identifiers, instants, errors, panics\<close>

text \<open>
  A \<^verbatim>\<open>uuid.UUID\<close> is represented by its canonical text (what \<^verbatim>\<open>String()\<close> prints), a
  \<^verbatim>\<open>time.Time\<close> by the instant it denotes, counted from Go's zero time, so that
  \<^verbatim>\<open>UTC()\<close> is the identity and the zero value is \<open>0\<close>.
\<close>

type_synonym uuid = string
type_synonym time = int

definition uuidNil :: uuid where
  "uuidNil = ''00000000-0000-0000-0000-000000000000''"

text \<open>
  A Go \<^verbatim>\<open>error\<close> is a plain error with its text, or an error wrapped with a message by
  \<^verbatim>\<open>errors.Wrapf\<close> of \<^verbatim>\<open>github.com/pkg/errors\<close>, whose \<^verbatim>\<open>Error()\<close> prints the message,
  a colon and the text of the cause. \<open>None :: error option\<close> is \<^verbatim>\<open>nil\<close>.
\<close>

datatype error = Error string | WithMessage error string

fun errorText :: "error \<Rightarrow> string" where
  "errorText (Error s) = s"
| "errorText (WithMessage cause msg) = msg @ '': '' @ errorText cause"

definition Wrapf :: "error \<Rightarrow> string \<Rightarrow> error" where
  "Wrapf err msg = WithMessage err msg"

text \<open>The run-time panics the two files can raise.\<close>

datatype panic = NilDereference | IndexOutOfRange

text \<open>
  \<^verbatim>\<open>xs[i]\<close> on a slice: Go panics when the index is negative or not below the length.
\<close>

definition index :: "'a list \<Rightarrow> int \<Rightarrow> panic + 'a" where
  "index xs i = (if 0 \<le> i \<and> i < int (length xs) then Inr (xs ! nat i) else Inl IndexOutOfRange)"

subsection \<open>The data model\<close>

text \<open>
  Modelled from the spec: the types of package \<^verbatim>\<open>models\<close> (\<^verbatim>\<open>ProjectSpec\<close>,
  \<^verbatim>\<open>JobSpec\<close>, \<^verbatim>\<open>ReplayMessage\<close>, \<^verbatim>\<open>ReplaySpec\<close>, the status literals) and of package
  \<^verbatim>\<open>tree\<close> (\<^verbatim>\<open>TreeNode\<close>) are used by the two files and declared elsewhere. A job
  specification is given here by the fields the two files read: its identifier, its name
  and its owning project.
\<close>

datatype ProjectSpec = ProjectSpec (ProjectName: string)

record JobSpec =
  JobID :: uuid
  JobName :: string
  JobProject :: ProjectSpec

record ReplayMessage =
  Type :: string
  Message :: string

text \<open>The zero value \<^verbatim>\<open>models.ReplayMessage{}\<close>.\<close>

definition emptyReplayMessage :: ReplayMessage where
  "emptyReplayMessage = \<lparr>Type = [], Message = []\<rparr>"

text \<open>Modelled from the spec: the status literals of package \<^verbatim>\<open>models\<close>.\<close>

definition ReplayStatusInProgress :: string where
  "ReplayStatusInProgress = ''InProgress''"

definition ReplayStatusReplayed :: string where
  "ReplayStatusReplayed = ''Replayed''"

definition ReplayStatusFailed :: string where
  "ReplayStatusFailed = ''Failed''"

text \<open>
  Modelled from the spec: a \<^verbatim>\<open>tree.TreeNode\<close> holds the job it stands for, the ordered
  sequence of its dependents and the set of its runs. Dependents are pointers, so an
  entry may be \<^verbatim>\<open>nil\<close> (\<open>None\<close>). The runs are a sorted set of instants (ascending,
  de-duplicated); it is represented by the list of its values in ascending order, which
  is what \<^verbatim>\<open>Runs.Values()\<close> returns, and \<^verbatim>\<open>Runs.Size()\<close> is the length of that list.
\<close>

datatype TreeNode =
  TreeNode (NodeData: JobSpec) (NodeDependents: "TreeNode option list") (NodeRuns: "time list")

definition GetName :: "TreeNode \<Rightarrow> string" where
  "GetName t = JobName (NodeData t)"

definition Values :: "time list \<Rightarrow> time list" where
  "Values runs = runs"

definition Size :: "time list \<Rightarrow> int" where
  "Size runs = int (length runs)"

text \<open>
  Modelled from the spec: \<^verbatim>\<open>Runs.Add\<close> of the sorted set of package \<^verbatim>\<open>tree\<close> inserts
  an instant at its place; an instant already present is kept once.
\<close>

definition Add :: "time list \<Rightarrow> time \<Rightarrow> time list" where
  "Add runs t = (if t \<in> set runs then runs else insort t runs)"

text \<open>
  Modelled from the spec: \<^verbatim>\<open>tree.NewTreeNode\<close> and \<^verbatim>\<open>AddDependent\<close> of package
  \<^verbatim>\<open>tree\<close>. A fresh node has no dependent and no run; a dependent is appended to the
  ordered sequence of dependents.
\<close>

definition NewTreeNode :: "JobSpec \<Rightarrow> TreeNode" where
  "NewTreeNode jobSpec = TreeNode jobSpec [] []"

definition AddDependent :: "TreeNode \<Rightarrow> TreeNode option \<Rightarrow> TreeNode" where
  "AddDependent t dep = TreeNode (NodeData t) (NodeDependents t @ [dep]) (NodeRuns t)"

record ReplaySpec =
  SpecID :: uuid
  SpecJob :: JobSpec
  SpecStartDate :: time
  SpecEndDate :: time
  SpecStatus :: string
  SpecMessage :: ReplayMessage
  SpecExecutionTree :: "TreeNode option"
  SpecCreatedAt :: time

subsection \<open>The worker's collaborators\<close>

text \<open>
  The worker talks to a repository (\<^verbatim>\<open>UpdateStatus\<close>, \<^verbatim>\<open>GetByID\<close>), to a scheduler
  (\<^verbatim>\<open>Clear\<close>) and to the logger. All are interfaces to stateful systems outside the
  worker. The state of that outside world is the sequence of calls made on it so far;
  what a call answers is a function of that sequence and of the call's arguments, which
  covers every deterministic behaviour of the collaborators. \<^verbatim>\<open>Process\<close> takes the
  sequence and returns it extended by the calls it made, in order.
\<close>

datatype call =
  UpdateStatusCall uuid string ReplayMessage
| GetByIDCall uuid
| ClearCall ProjectSpec string time time
| LogW string
| LogI string

text \<open>
  \<^verbatim>\<open>GetAllNodes\<close> of package \<^verbatim>\<open>tree\<close> flattens the execution tree; the order of its
  result is the order in which \<^verbatim>\<open>Process\<close> visits the nodes. It is a parameter here,
  so that every order of visit is covered; it may panic (on a \<^verbatim>\<open>nil\<close> tree) and
  its result holds pointers.
\<close>

record collaborators =
  repoUpdateStatus :: "call list \<Rightarrow> uuid \<Rightarrow> string \<Rightarrow> ReplayMessage \<Rightarrow> error option"
  repoGetByID :: "call list \<Rightarrow> uuid \<Rightarrow> error + ReplaySpec"
  schedulerClear :: "call list \<Rightarrow> ProjectSpec \<Rightarrow> string \<Rightarrow> time \<Rightarrow> time \<Rightarrow> error option"
  GetAllNodes :: "TreeNode option \<Rightarrow> panic + TreeNode option list"

subsection \<open>The worker: \<^verbatim>\<open>Process\<close>\<close>

definition AirflowClearDagRunFailed :: string where
  "AirflowClearDagRunFailed = ''failed to clear airflow dag run''"

text \<open>What \<^verbatim>\<open>Process\<close> does: it returns an error or \<^verbatim>\<open>nil\<close>, or it panics.\<close>

datatype outcome = Return "error option" | Panic panic

text \<open>
  The two reads of the loop body, \<^verbatim>\<open>runTimes[0]\<close> and
  \<^verbatim>\<open>runTimes[treeNode.Runs.Size()-1]\<close>, in the order the code makes them.
\<close>

definition runRange :: "TreeNode \<Rightarrow> panic + time \<times> time" where
  "runRange treeNode =
    (let runTimes = Values (NodeRuns treeNode) in
     case index runTimes 0 of
       Inl p \<Rightarrow> Inl p
     | Inr startTime \<Rightarrow>
        (case index runTimes (Size (NodeRuns treeNode) - 1) of
           Inl p \<Rightarrow> Inl p
         | Inr endTime \<Rightarrow> Inr (startTime, endTime)))"

text \<open>
  The loop \<^verbatim>\<open>for _, treeNode := range replayDagsMap\<close>. The result \<open>None\<close> says
  that the loop ran to its end; \<open>Some out\<close> that the body returned or panicked.
\<close>

fun clearLoop ::
  "collaborators \<Rightarrow> uuid \<Rightarrow> ProjectSpec \<Rightarrow> TreeNode option list \<Rightarrow> call list
    \<Rightarrow> outcome option \<times> call list" where
  "clearLoop w reqUUID project [] h = (None, h)"
| "clearLoop w reqUUID project (None # rest) h = (Some (Panic NilDereference), h)"
| "clearLoop w reqUUID project (Some treeNode # rest) h =
    (case runRange treeNode of
       Inl p \<Rightarrow> (Some (Panic p), h)
     | Inr (startTime, endTime) \<Rightarrow>
        (let h1 = h @ [ClearCall project (GetName treeNode) startTime endTime] in
         case schedulerClear w h project (GetName treeNode) startTime endTime of
           None \<Rightarrow> clearLoop w reqUUID project rest h1
         | Some err0 \<Rightarrow>
            (let err = Wrapf err0 (''error while clearing dag runs for job '' @ GetName treeNode);
                 h2 = h1 @ [LogW (''error while running replay '' @ reqUUID @ '': '' @ errorText err)];
                 message = \<lparr>Type = AirflowClearDagRunFailed, Message = errorText err\<rparr>;
                 h3 = h2 @ [UpdateStatusCall reqUUID ReplayStatusFailed message] in
             case repoUpdateStatus w h2 reqUUID ReplayStatusFailed message of
               Some updateStatusErr \<Rightarrow> (Some (Return (Some updateStatusErr)), h3)
             | None \<Rightarrow> (Some (Return (Some err)), h3))))"

definition Process :: "collaborators \<Rightarrow> uuid \<Rightarrow> call list \<Rightarrow> outcome \<times> call list" where
  "Process w reqUUID h =
    (let h1 = h @ [UpdateStatusCall reqUUID ReplayStatusInProgress emptyReplayMessage] in
     case repoUpdateStatus w h reqUUID ReplayStatusInProgress emptyReplayMessage of
       Some inProgressErr \<Rightarrow> (Return (Some inProgressErr), h1)
     | None \<Rightarrow>
        (let h2 = h1 @ [GetByIDCall reqUUID] in
         case repoGetByID w h1 reqUUID of
           Inl err \<Rightarrow> (Return (Some err), h2)
         | Inr replaySpec \<Rightarrow>
            (case GetAllNodes w (SpecExecutionTree replaySpec) of
               Inl p \<Rightarrow> (Panic p, h2)
             | Inr replayDagsMap \<Rightarrow>
                (case clearLoop w reqUUID (JobProject (SpecJob replaySpec)) replayDagsMap h2 of
                   (Some out, h3) \<Rightarrow> (out, h3)
                 | (None, h3) \<Rightarrow>
                    (let h4 = h3 @ [UpdateStatusCall reqUUID ReplayStatusReplayed emptyReplayMessage] in
                     case repoUpdateStatus w h3 reqUUID ReplayStatusReplayed emptyReplayMessage of
                       Some err \<Rightarrow> (Return (Some err), h4)
                     | None \<Rightarrow>
                        (Return None,
                         h4 @ [LogI (''successfully cleared instances of replay id: '' @ reqUUID)]))))))"

subsection \<open>The repository: the persisted execution tree\<close>

text \<open>
  The persisted form of a tree node, \<^verbatim>\<open>ExecutionTree\<close>. Its \<^verbatim>\<open>Data\<close> field has type
  \<^verbatim>\<open>interface{}\<close>: \<^verbatim>\<open>fromTreeNode\<close> stores a job specification there, and what
  \<^verbatim>\<open>json.Unmarshal\<close> leaves there is a generic value, so the type of the payload is a
  parameter. Dependents are pointers and may be \<^verbatim>\<open>nil\<close>.
\<close>

datatype 'd ExecutionTree =
  ExecutionTree (Data: 'd) (Dependents: "'d ExecutionTree option list") (Runs: "time list")

text \<open>
  The results of a loop whose body may panic: the first panic, in the order of the
  loop, ends it.
\<close>

fun collect :: "(panic + 'a) list \<Rightarrow> panic + 'a list" where
  "collect [] = Inr []"
| "collect (Inl p # rs) = Inl p"
| "collect (Inr x # rs) = (case collect rs of Inl p \<Rightarrow> Inl p | Inr xs \<Rightarrow> Inr (x # xs))"

text \<open>
  \<^verbatim>\<open>fromTreeNode\<close>. The argument is a pointer; reading \<^verbatim>\<open>executionTree.Dependents\<close>
  through \<^verbatim>\<open>nil\<close> panics. The type assertion \<^verbatim>\<open>Data.(models.JobSpec)\<close> cannot fail
  here, since a node of the model always holds a job specification.
\<close>

fun fromTreeNode :: "TreeNode option \<Rightarrow> panic + JobSpec ExecutionTree" where
  "fromTreeNode None = Inl NilDereference"
| "fromTreeNode (Some (TreeNode d deps runs)) =
    (case collect (map fromTreeNode deps) of
       Inl p \<Rightarrow> Inl p
     | Inr dependents \<Rightarrow> Inr (ExecutionTree d (map Some dependents) (Values runs)))"

text \<open>\<^verbatim>\<open>treeNode.Runs.Add(run)\<close> on a node.\<close>

definition addRun :: "TreeNode \<Rightarrow> time \<Rightarrow> TreeNode" where
  "addRun t run = TreeNode (NodeData t) (NodeDependents t) (Add (NodeRuns t) run)"

text \<open>
  \<^verbatim>\<open>toTreeNode\<close>. \<^verbatim>\<open>mapstructure.Decode\<close> is an external library applied to the
  payload, a parameter here. When it fails the result is \<^verbatim>\<open>nil\<close>, and a parent adds
  that \<^verbatim>\<open>nil\<close> to its dependents.
\<close>

fun toTreeNode :: "('d \<Rightarrow> error + JobSpec) \<Rightarrow> 'd ExecutionTree option \<Rightarrow> panic + TreeNode option" where
  "toTreeNode decode None = Inl NilDereference"
| "toTreeNode decode (Some (ExecutionTree d deps runs)) =
    (case decode d of
       Inl err \<Rightarrow> Inr None
     | Inr jobSpec \<Rightarrow>
        (case collect (map (toTreeNode decode) deps) of
           Inl p \<Rightarrow> Inl p
         | Inr dependents \<Rightarrow>
            Inr (Some (foldl addRun (foldl AddDependent (NewTreeNode jobSpec) dependents) runs))))"

subsection \<open>The repository: what the libraries make of a job specification\<close>

text \<open>
  Between \<^verbatim>\<open>fromTreeNode\<close> and \<^verbatim>\<open>toTreeNode\<close> the tree passes through
  \<^verbatim>\<open>json.Marshal\<close>, \<^verbatim>\<open>json.Unmarshal\<close> and \<^verbatim>\<open>mapstructure.Decode\<close>, libraries
  outside the repository. \<^verbatim>\<open>json.Unmarshal\<close> fills a field of type \<^verbatim>\<open>interface{}\<close>
  with a generic value: a string for a JSON string, a map from keys to generic values
  for a JSON object. These are the values that occur in the document of a job
  specification with the fields modelled here.
\<close>

datatype generic = GString string | GObject "(string \<times> generic) list"

text \<open>
  \<^verbatim>\<open>json.Marshal\<close> writes a struct as an object keyed by the names of its fields, and
  a \<^verbatim>\<open>uuid.UUID\<close>, which is an array of sixteen bytes with a text form, as the
  string of that form. The job's identifier is a \<^verbatim>\<open>uuid.UUID\<close>: \<^verbatim>\<open>FromSpec\<close> stores
  \<^verbatim>\<open>spec.Job.ID\<close> in the field \<^verbatim>\<open>JobID uuid.UUID\<close> of the row.
\<close>

definition jsonOfJobSpec :: "JobSpec \<Rightarrow> generic" where
  "jsonOfJobSpec j =
    GObject [(''ID'', GString (JobID j)),
             (''Name'', GString (JobName j)),
             (''Project'', GObject [(''Name'', GString (ProjectName (JobProject j)))])]"

text \<open>
  The persisted tree as \<^verbatim>\<open>json.Unmarshal\<close> reads it back from what \<^verbatim>\<open>json.Marshal\<close>
  wrote: the same shape, the same dependents in the same order, the same runs (for runs
  that JSON can write, those of the years 0 to 9999), and at every node the generic value
  of its job specification.
\<close>

definition persisted :: "JobSpec ExecutionTree \<Rightarrow> generic option ExecutionTree" where
  "persisted et = map_ExecutionTree (\<lambda>j. Some (jsonOfJobSpec j)) et"

text \<open>
  \<^verbatim>\<open>mapstructure.Decode\<close> into a struct takes a map, finds the value of each field
  under the field's name and converts it to the field's type; a key that is absent
  leaves the zero value, and so does a \<^verbatim>\<open>nil\<close> input. It converts a string to a
  string and a map to a struct, and it has no conversion of a string to an array: for
  the identifier, an array of bytes, it reports that the source must be an array or a
  slice.
\<close>

definition decodeProjectSpec :: "generic option \<Rightarrow> error + ProjectSpec" where
  "decodeProjectSpec d =
    (case d of
       None \<Rightarrow> Inr (ProjectSpec [])
     | Some (GString s) \<Rightarrow> Inl (Error ''Project: expected a map, got string'')
     | Some (GObject kvs) \<Rightarrow>
        (case map_of kvs ''Name'' of
           None \<Rightarrow> Inr (ProjectSpec [])
         | Some (GString s) \<Rightarrow> Inr (ProjectSpec s)
         | Some (GObject fs) \<Rightarrow> Inl (Error ''Project.Name: expected type string, got map'')))"

definition decodeJobSpec :: "generic option \<Rightarrow> error + JobSpec" where
  "decodeJobSpec d =
    (case d of
       None \<Rightarrow> Inr \<lparr>JobID = uuidNil, JobName = [], JobProject = ProjectSpec []\<rparr>
     | Some (GString s) \<Rightarrow> Inl (Error ''expected a map, got string'')
     | Some (GObject kvs) \<Rightarrow>
        (case map_of kvs ''ID'' of
           Some (GString s) \<Rightarrow> Inl (Error ''ID: source data must be an array or slice, got string'')
         | Some (GObject fs) \<Rightarrow> Inl (Error ''ID: source data must be an array or slice, got map'')
         | None \<Rightarrow>
            (case (case map_of kvs ''Name'' of
                     None \<Rightarrow> Inr []
                   | Some (GString s) \<Rightarrow> Inr s
                   | Some (GObject fs) \<Rightarrow> Inl (Error ''Name: expected type string, got map'')) of
               Inl err \<Rightarrow> Inl err
             | Inr name \<Rightarrow>
                (case decodeProjectSpec (map_of kvs ''Project'') of
                   Inl err \<Rightarrow> Inl err
                 | Inr projectSpec \<Rightarrow>
                    Inr \<lparr>JobID = uuidNil, JobName = name, JobProject = projectSpec\<rparr>))))"

subsection \<open>The repository: \<^verbatim>\<open>ToSpec\<close> and \<^verbatim>\<open>GetByID\<close>\<close>

text \<open>
  The stored row. \<^verbatim>\<open>datatypes.JSON\<close> is a byte slice; \<^verbatim>\<open>ToSpec\<close> tests the tree's
  slice against \<^verbatim>\<open>nil\<close>, so that column is optional, and it hands the message's
  slice to \<^verbatim>\<open>json.Unmarshal\<close>, which does not tell \<^verbatim>\<open>nil\<close> from the empty slice.
  The type of the stored job row (\<^verbatim>\<open>postgres.Job\<close>) is a parameter.
\<close>

record 'job Replay =
  RowID :: uuid
  RowJobID :: uuid
  RowJob :: 'job
  RowStartDate :: time
  RowEndDate :: time
  RowStatus :: string
  RowMessage :: string
  RowExecutionTree :: "string option"
  RowCreatedAt :: time
  RowUpdatedAt :: time

text \<open>
  The two external decoders: \<^verbatim>\<open>json.Unmarshal\<close> at the two types \<^verbatim>\<open>ToSpec\<close> uses it
  at, and \<^verbatim>\<open>mapstructure.Decode\<close> into a job specification. A \<^verbatim>\<open>nil\<close> payload
  is \<open>None\<close>.
\<close>

record 'g codec =
  jsonUnmarshalMessage :: "string \<Rightarrow> error + ReplayMessage"
  jsonUnmarshalTree :: "string \<Rightarrow> error + 'g option ExecutionTree"
  mapstructureDecode :: "'g option \<Rightarrow> error + JobSpec"

text \<open>The zero values \<^verbatim>\<open>models.ReplaySpec{}\<close> and \<^verbatim>\<open>ExecutionTree{}\<close>.\<close>

definition emptyReplaySpec :: ReplaySpec where
  "emptyReplaySpec =
    \<lparr>SpecID = uuidNil,
     SpecJob = \<lparr>JobID = uuidNil, JobName = [], JobProject = ProjectSpec []\<rparr>,
     SpecStartDate = 0, SpecEndDate = 0, SpecStatus = [], SpecMessage = emptyReplayMessage,
     SpecExecutionTree = None, SpecCreatedAt = 0\<rparr>"

definition emptyExecutionTree :: "'g option ExecutionTree" where
  "emptyExecutionTree = ExecutionTree None [] []"

text \<open>\<^verbatim>\<open>ToSpec\<close> returns the pair of a specification and an error, or panics.\<close>

definition ToSpec :: "'g codec \<Rightarrow> 'job Replay \<Rightarrow> JobSpec \<Rightarrow> panic + ReplaySpec \<times> error option" where
  "ToSpec c p jobSpec =
    (case jsonUnmarshalMessage c (RowMessage p) of
       Inl err \<Rightarrow> Inr (emptyReplaySpec, None)
     | Inr message \<Rightarrow>
        (case (case RowExecutionTree p of
                 None \<Rightarrow> Inr emptyExecutionTree
               | Some bytes \<Rightarrow> jsonUnmarshalTree c bytes) of
           Inl err \<Rightarrow> Inr (emptyReplaySpec, Some err)
         | Inr executionTree \<Rightarrow>
            (case toTreeNode (mapstructureDecode c) (Some executionTree) of
               Inl pnc \<Rightarrow> Inl pnc
             | Inr treeNode \<Rightarrow>
                Inr (\<lparr>SpecID = RowID p, SpecJob = jobSpec,
                      SpecStartDate = RowStartDate p, SpecEndDate = RowEndDate p,
                      SpecStatus = RowStatus p, SpecMessage = message,
                      SpecExecutionTree = treeNode, SpecCreatedAt = RowCreatedAt p\<rparr>, None))))"

text \<open>
  What \<^verbatim>\<open>GetByID\<close> calls outside this file: the query of the row with its job, project
  and secrets preloaded, the job adapter's \<^verbatim>\<open>ToSpec\<close>, and the project's
  \<^verbatim>\<open>ToSpecWithSecrets\<close> with the repository's key.
\<close>

record 'job database =
  dbFind :: "uuid \<Rightarrow> error + 'job Replay"
  adapterToSpec :: "'job \<Rightarrow> error + JobSpec"
  projectToSpecWithSecrets :: "'job \<Rightarrow> error + ProjectSpec"

definition ErrRecordNotFound :: error where
  "ErrRecordNotFound = Error ''record not found''"

definition ErrResourceNotFound :: error where
  "ErrResourceNotFound = Error ''resource not found''"

definition GetByID :: "'job database \<Rightarrow> 'g codec \<Rightarrow> uuid \<Rightarrow> panic + ReplaySpec \<times> error option" where
  "GetByID repo c reqID =
    (case dbFind repo reqID of
       Inl err \<Rightarrow>
        (if err = ErrRecordNotFound then Inr (emptyReplaySpec, Some ErrResourceNotFound)
         else Inr (emptyReplaySpec, Some err))
     | Inr r \<Rightarrow>
        (case adapterToSpec repo (RowJob r) of
           Inl err \<Rightarrow> Inr (emptyReplaySpec, Some err)
         | Inr jobSpec \<Rightarrow>
            (case projectToSpecWithSecrets repo (RowJob r) of
               Inl err \<Rightarrow> Inr (emptyReplaySpec, Some err)
             | Inr projectSpec \<Rightarrow> ToSpec c r (jobSpec\<lparr>JobProject := projectSpec\<rparr>))))"

subsection \<open>Vocabulary of the statements\<close>

text \<open>
  The \<^verbatim>\<open>Clear\<close> call for a node with runs: the given project, the node's name, its
  first and its last run.
\<close>

definition clearCallOf :: "ProjectSpec \<Rightarrow> TreeNode \<Rightarrow> call" where
  "clearCallOf project n = ClearCall project (GetName n) (hd (NodeRuns n)) (last (NodeRuns n))"

text \<open>
  The scheduler clears each node of a sequence in turn: every node has a run, and its
  \<^verbatim>\<open>Clear\<close> call, made after the calls for the nodes before it, answers \<^verbatim>\<open>nil\<close>.
\<close>

fun clearsSucceed :: "collaborators \<Rightarrow> ProjectSpec \<Rightarrow> TreeNode list \<Rightarrow> call list \<Rightarrow> bool" where
  "clearsSucceed w project [] h = True"
| "clearsSucceed w project (n # ns) h =
    (NodeRuns n \<noteq> [] \<and>
     schedulerClear w h project (GetName n) (hd (NodeRuns n)) (last (NodeRuns n)) = None \<and>
     clearsSucceed w project ns (h @ [clearCallOf project n]))"

text \<open>The message recorded when the clearing of the job of that name failed with that error.\<close>

definition failedMessage :: "string \<Rightarrow> error \<Rightarrow> ReplayMessage" where
  "failedMessage jobName e =
    \<lparr>Type = ''failed to clear airflow dag run'',
     Message = ''error while clearing dag runs for job '' @ jobName @ '': '' @ errorText e\<rparr>"

text \<open>All nodes of a tree: the node and the nodes of its dependents, in preorder.\<close>

fun treeNodes :: "TreeNode \<Rightarrow> TreeNode list" where
  "treeNodes (TreeNode d deps runs) =
    TreeNode d deps runs # concat (map (\<lambda>dep. case dep of None \<Rightarrow> [] | Some n \<Rightarrow> treeNodes n) deps)"

text \<open>
  A constructed tree: every dependent is a node, and the runs of every node are a sorted
  set, that is ascending without repetition.
\<close>

fun constructed :: "TreeNode \<Rightarrow> bool" where
  "constructed (TreeNode d deps runs) =
    (sorted runs \<and> distinct runs \<and>
     (\<forall>dep \<in> set deps. case dep of None \<Rightarrow> False | Some n \<Rightarrow> constructed n))"

subsection \<open>An example: the replay of \<open>ingest\<close> and its dependent \<open>transform\<close>\<close>

definition ingest :: JobSpec where
  "ingest = \<lparr>JobID = ''job-1'', JobName = ''ingest'', JobProject = ProjectSpec ''lake''\<rparr>"

definition transform :: JobSpec where
  "transform = \<lparr>JobID = ''job-2'', JobName = ''transform'', JobProject = ProjectSpec ''mart''\<rparr>"

definition transformNode :: TreeNode where
  "transformNode = TreeNode transform [] [10, 20]"

definition ingestNode :: TreeNode where
  "ingestNode = TreeNode ingest [Some transformNode] [10, 20, 30]"

definition exampleReplay :: ReplaySpec where
  "exampleReplay =
    \<lparr>SpecID = ''replay-1'', SpecJob = ingest, SpecStartDate = 10, SpecEndDate = 30,
     SpecStatus = ReplayStatusInProgress, SpecMessage = emptyReplayMessage,
     SpecExecutionTree = Some ingestNode, SpecCreatedAt = 5\<rparr>"

text \<open>A flattening that visits a node before its dependents.\<close>

definition preorder :: "TreeNode option \<Rightarrow> panic + TreeNode option list" where
  "preorder t = (case t of None \<Rightarrow> Inl NilDereference | Some n \<Rightarrow> Inr (map Some (treeNodes n)))"

text \<open>
  Collaborators that hold the example replay: the scheduler answers by the job's name,
  the repository's status update by the status.
\<close>

definition scenario :: "(string \<Rightarrow> error option) \<Rightarrow> (string \<Rightarrow> error option) \<Rightarrow> collaborators" where
  "scenario clearAnswer updateAnswer =
    \<lparr>repoUpdateStatus = (\<lambda>h reqUUID status message. updateAnswer status),
     repoGetByID = (\<lambda>h reqUUID. Inr exampleReplay),
     schedulerClear = (\<lambda>h project jobName startTime endTime. clearAnswer jobName),
     GetAllNodes = preorder\<rparr>"

definition allFine :: "string \<Rightarrow> error option" where
  "allFine x = None"

definition transformFails :: "string \<Rightarrow> error option" where
  "transformFails jobName = (if jobName = ''transform'' then Some (Error ''dag not found'') else None)"

definition storageDownOn :: "string \<Rightarrow> string \<Rightarrow> error option" where
  "storageDownOn status s = (if s = status then Some (Error ''storage unavailable'') else None)"

text \<open>
  A stored replay of one job, whose identifier is a UUID in its text form, with three runs.
\<close>

definition storedJob :: JobSpec where
  "storedJob =
    \<lparr>JobID = ''6ba7b810-9dad-11d1-80b4-00c04fd430c8'', JobName = ''ingest'',
     JobProject = ProjectSpec ''lake''\<rparr>"

definition storedNode :: TreeNode where
  "storedNode = TreeNode storedJob [] [10, 20, 30]"

text \<open>A decoder of payloads that are the three fields of a job, for the example codec below.\<close>

definition decodeJob :: "string \<times> string \<times> string \<Rightarrow> error + JobSpec" where
  "decodeJob d = (case d of (i, n, p) \<Rightarrow> Inr \<lparr>JobID = i, JobName = n, JobProject = ProjectSpec p\<rparr>)"

text \<open>
  A stored row whose message column holds the truncated document \<open>{\<close>, and decoders
  that accept the empty object as a message and reject every other input, as
  \<^verbatim>\<open>json.Unmarshal\<close> rejects a truncated document.
\<close>

definition corruptMessageRow :: "JobSpec Replay" where
  "corruptMessageRow =
    \<lparr>RowID = ''replay-1'', RowJobID = ''job-1'', RowJob = ingest, RowStartDate = 10,
     RowEndDate = 30, RowStatus = ReplayStatusInProgress, RowMessage = ''{'',
     RowExecutionTree = None, RowCreatedAt = 5, RowUpdatedAt = 6\<rparr>"

definition exampleDatabase :: "JobSpec database" where
  "exampleDatabase =
    \<lparr>dbFind = (\<lambda>reqID. if reqID = ''replay-1'' then Inr corruptMessageRow else Inl ErrRecordNotFound),
     adapterToSpec = (\<lambda>job. Inr job),
     projectToSpecWithSecrets = (\<lambda>job. Inr (JobProject job))\<rparr>"

definition exampleCodec :: "(string \<times> string \<times> string) codec" where
  "exampleCodec =
    \<lparr>jsonUnmarshalMessage =
       (\<lambda>bytes. if bytes = ''{}'' then Inr emptyReplayMessage
                 else Inl (Error ''unexpected end of JSON input'')),
     jsonUnmarshalTree = (\<lambda>bytes. Inl (Error ''unexpected end of JSON input'')),
     mapstructureDecode =
       (\<lambda>d. case d of None \<Rightarrow> Inr (SpecJob emptyReplaySpec) | Some x \<Rightarrow> decodeJob x)\<rparr>"

section \<open>Properties\<close>

subsection \<open>The loop of the worker\<close>

lemma index_first: "xs \<noteq> [] \<Longrightarrow> index xs 0 = Inr (hd xs)"
  by (simp add: index_def hd_conv_nth)

lemma index_last: "xs \<noteq> [] \<Longrightarrow> index xs (int (length xs) - 1) = Inr (last xs)"
  by (cases xs rule: rev_cases) (simp_all add: index_def nth_append)

lemma runRange_nonempty:
  "NodeRuns n \<noteq> [] \<Longrightarrow> runRange n = Inr (hd (NodeRuns n), last (NodeRuns n))"
  by (simp add: runRange_def Values_def Size_def index_first index_last Let_def)

lemma runRange_empty: "NodeRuns n = [] \<Longrightarrow> runRange n = Inl IndexOutOfRange"
  by (simp add: runRange_def Values_def index_def)

lemma clearLoop_succeed:
  "clearsSucceed w project ns h \<Longrightarrow>
   clearLoop w reqUUID project (map Some ns @ rest) h =
   clearLoop w reqUUID project rest (h @ map (clearCallOf project) ns)"
proof (induction ns arbitrary: h)
  case Nil
  then show ?case by simp
next
  case (Cons n ns)
  then show ?case
    by (simp add: runRange_nonempty clearCallOf_def)
qed

lemma clearLoop_fail:
  assumes "NodeRuns n \<noteq> []"
    and "schedulerClear w h project (GetName n) (hd (NodeRuns n)) (last (NodeRuns n)) = Some e"
  shows "clearLoop w reqUUID project (Some n # rest) h =
    (let err = Wrapf e (''error while clearing dag runs for job '' @ GetName n);
         message = \<lparr>Type = AirflowClearDagRunFailed, Message = errorText err\<rparr>;
         h2 = h @ [clearCallOf project n,
                   LogW (''error while running replay '' @ reqUUID @ '': '' @ errorText err)] in
     (Some (Return (Some (case repoUpdateStatus w h2 reqUUID ReplayStatusFailed message of
                            None \<Rightarrow> err | Some updateStatusErr \<Rightarrow> updateStatusErr))),
      h2 @ [UpdateStatusCall reqUUID ReplayStatusFailed message]))"
  using assms by (simp add: runRange_nonempty clearCallOf_def Let_def split: option.splits)

lemma clearLoop_extends:
  "\<exists>t. snd (clearLoop w reqUUID project nodes h) = h @ t \<and>
       (\<forall>p n s e. ClearCall p n s e \<in> set t \<longrightarrow> p = project)"
proof (induction w reqUUID project nodes h rule: clearLoop.induct)
  case (1 w reqUUID project h)
  then show ?case by simp
next
  case (2 w reqUUID project rest h)
  then show ?case by simp
next
  case (3 w reqUUID project treeNode rest h)
  show ?case
  proof (cases "runRange treeNode")
    case (Inl p)
    then show ?thesis by simp
  next
    case (Inr range)
    obtain startTime endTime where range: "range = (startTime, endTime)"
      by (cases range)
    show ?thesis
    proof (cases "schedulerClear w h project (GetName treeNode) startTime endTime")
      case None
      from "3.IH" [OF Inr range [symmetric] refl None] obtain t where
        t: "snd (clearLoop w reqUUID project rest
                  (h @ [ClearCall project (GetName treeNode) startTime endTime])) =
            (h @ [ClearCall project (GetName treeNode) startTime endTime]) @ t"
           "\<forall>p n s e. ClearCall p n s e \<in> set t \<longrightarrow> p = project"
        by blast
      then show ?thesis
        using Inr range None by auto
    next
      case (Some err0)
      then show ?thesis
        using Inr range by (simp add: Let_def split: option.splits)
    qed
  qed
qed

lemma clearLoop_no_index_panic:
  "\<forall>n. Some n \<in> set nodes \<longrightarrow> NodeRuns n \<noteq> [] \<Longrightarrow>
   fst (clearLoop w reqUUID project nodes h) \<noteq> Some (Panic IndexOutOfRange)"
proof (induction w reqUUID project nodes h rule: clearLoop.induct)
  case (1 w reqUUID project h)
  then show ?case by simp
next
  case (2 w reqUUID project rest h)
  then show ?case by simp
next
  case (3 w reqUUID project treeNode rest h)
  then have runs: "NodeRuns treeNode \<noteq> []" by simp
  from 3 show ?case
    by (simp add: runRange_nonempty [OF runs] Let_def split: option.splits)
qed

subsection \<open>The worker from its entry to its return\<close>

lemma Process_reaches_loop:
  assumes "repoUpdateStatus w h reqUUID ReplayStatusInProgress emptyReplayMessage = None"
    and "repoGetByID w (h @ [UpdateStatusCall reqUUID ReplayStatusInProgress emptyReplayMessage]) reqUUID
          = Inr replaySpec"
    and "GetAllNodes w (SpecExecutionTree replaySpec) = Inr nodes"
  shows "Process w reqUUID h =
    (case clearLoop w reqUUID (JobProject (SpecJob replaySpec)) nodes
            (h @ [UpdateStatusCall reqUUID ReplayStatusInProgress emptyReplayMessage, GetByIDCall reqUUID]) of
       (Some out, h3) \<Rightarrow> (out, h3)
     | (None, h3) \<Rightarrow>
        (Return (repoUpdateStatus w h3 reqUUID ReplayStatusReplayed emptyReplayMessage),
         h3 @ UpdateStatusCall reqUUID ReplayStatusReplayed emptyReplayMessage #
           (case repoUpdateStatus w h3 reqUUID ReplayStatusReplayed emptyReplayMessage of
              None \<Rightarrow> [LogI (''successfully cleared instances of replay id: '' @ reqUUID)]
            | Some err \<Rightarrow> [])))"
  using assms by (simp add: Process_def Let_def split: option.splits prod.splits)

lemma Process_first_failure:
  assumes upd: "repoUpdateStatus w h reqUUID ReplayStatusInProgress emptyReplayMessage = None"
    and get: "repoGetByID w (h @ [UpdateStatusCall reqUUID ReplayStatusInProgress emptyReplayMessage]) reqUUID
          = Inr replaySpec"
    and flat: "GetAllNodes w (SpecExecutionTree replaySpec) = Inr (map Some before @ Some nodeK # after)"
    and h2: "h2 = h @ [UpdateStatusCall reqUUID ReplayStatusInProgress emptyReplayMessage, GetByIDCall reqUUID]"
    and project: "project = JobProject (SpecJob replaySpec)"
    and ok: "clearsSucceed w project before h2"
    and runs: "NodeRuns nodeK \<noteq> []"
    and fail: "schedulerClear w (h2 @ map (clearCallOf project) before) project
                 (GetName nodeK) (hd (NodeRuns nodeK)) (last (NodeRuns nodeK)) = Some e"
    and h3: "h3 = h2 @ map (clearCallOf project) (before @ [nodeK]) @
                 [LogW (''error while running replay '' @ reqUUID @ '': '' @
                        Message (failedMessage (GetName nodeK) e))]"
  shows "Process w reqUUID h =
    (Return (Some (case repoUpdateStatus w h3 reqUUID ReplayStatusFailed (failedMessage (GetName nodeK) e) of
                     None \<Rightarrow> Wrapf e (''error while clearing dag runs for job '' @ GetName nodeK)
                   | Some updateStatusErr \<Rightarrow> updateStatusErr)),
     h3 @ [UpdateStatusCall reqUUID ReplayStatusFailed (failedMessage (GetName nodeK) e)])"
proof -
  have "clearLoop w reqUUID project (map Some before @ Some nodeK # after) h2 =
        clearLoop w reqUUID project (Some nodeK # after) (h2 @ map (clearCallOf project) before)"
    using ok by (rule clearLoop_succeed)
  then show ?thesis
    using clearLoop_fail [OF runs fail, of reqUUID after]
      Process_reaches_loop [OF upd get flat]
    by (simp add: h2 h3 project failedMessage_def Let_def AirflowClearDagRunFailed_def Wrapf_def
        split: option.splits)
qed

lemma Process_all_cleared:
  assumes upd: "repoUpdateStatus w h reqUUID ReplayStatusInProgress emptyReplayMessage = None"
    and get: "repoGetByID w (h @ [UpdateStatusCall reqUUID ReplayStatusInProgress emptyReplayMessage]) reqUUID
          = Inr replaySpec"
    and flat: "GetAllNodes w (SpecExecutionTree replaySpec) = Inr (map Some nodes)"
    and h2: "h2 = h @ [UpdateStatusCall reqUUID ReplayStatusInProgress emptyReplayMessage, GetByIDCall reqUUID]"
    and project: "project = JobProject (SpecJob replaySpec)"
    and ok: "clearsSucceed w project nodes h2"
    and h3: "h3 = h2 @ map (clearCallOf project) nodes"
  shows "Process w reqUUID h =
    (Return (repoUpdateStatus w h3 reqUUID ReplayStatusReplayed emptyReplayMessage),
     h3 @ UpdateStatusCall reqUUID ReplayStatusReplayed emptyReplayMessage #
       (case repoUpdateStatus w h3 reqUUID ReplayStatusReplayed emptyReplayMessage of
          None \<Rightarrow> [LogI (''successfully cleared instances of replay id: '' @ reqUUID)]
        | Some err \<Rightarrow> []))"
proof -
  have "clearLoop w reqUUID project (map Some nodes @ []) h2 =
        clearLoop w reqUUID project [] (h2 @ map (clearCallOf project) nodes)"
    using ok by (rule clearLoop_succeed)
  then show ?thesis
    using Process_reaches_loop [OF upd get flat]
    by (simp add: h2 h3 project)
qed

lemma Process_extends:
  assumes get: "repoGetByID w (h @ [UpdateStatusCall reqUUID ReplayStatusInProgress emptyReplayMessage]) reqUUID
          = Inr replaySpec"
  shows "\<exists>t. snd (Process w reqUUID h) = h @ t \<and>
       (\<forall>p n s e. ClearCall p n s e \<in> set t \<longrightarrow> p = JobProject (SpecJob replaySpec))"
proof (cases "repoUpdateStatus w h reqUUID ReplayStatusInProgress emptyReplayMessage")
  case (Some e)
  then show ?thesis by (simp add: Process_def)
next
  case None
  let ?h2 = "h @ [UpdateStatusCall reqUUID ReplayStatusInProgress emptyReplayMessage, GetByIDCall reqUUID]"
  show ?thesis
  proof (cases "GetAllNodes w (SpecExecutionTree replaySpec)")
    case (Inl p)
    then show ?thesis using None get by (simp add: Process_def)
  next
    case (Inr nodes)
    obtain t where t: "snd (clearLoop w reqUUID (JobProject (SpecJob replaySpec)) nodes ?h2) = ?h2 @ t"
      "\<forall>p n s e. ClearCall p n s e \<in> set t \<longrightarrow> p = JobProject (SpecJob replaySpec)"
      using clearLoop_extends by blast
    obtain out h3 where loop: "clearLoop w reqUUID (JobProject (SpecJob replaySpec)) nodes ?h2 = (out, h3)"
      by (cases "clearLoop w reqUUID (JobProject (SpecJob replaySpec)) nodes ?h2")
    with t have h3: "h3 = ?h2 @ t" by simp
    show ?thesis
      using Process_reaches_loop [OF None get Inr] loop h3 t(2)
      by (cases out) (auto split: option.splits)
  qed
qed

lemma Process_no_index_panic:
  assumes get: "repoGetByID w (h @ [UpdateStatusCall reqUUID ReplayStatusInProgress emptyReplayMessage]) reqUUID
          = Inr replaySpec"
    and flat: "GetAllNodes w (SpecExecutionTree replaySpec) = Inr nodes"
    and runs: "\<forall>n. Some n \<in> set nodes \<longrightarrow> NodeRuns n \<noteq> []"
  shows "fst (Process w reqUUID h) \<noteq> Panic IndexOutOfRange"
proof (cases "repoUpdateStatus w h reqUUID ReplayStatusInProgress emptyReplayMessage")
  case (Some e)
  then show ?thesis by (simp add: Process_def)
next
  case None
  let ?h2 = "h @ [UpdateStatusCall reqUUID ReplayStatusInProgress emptyReplayMessage, GetByIDCall reqUUID]"
  obtain out h3 where loop: "clearLoop w reqUUID (JobProject (SpecJob replaySpec)) nodes ?h2 = (out, h3)"
    by (cases "clearLoop w reqUUID (JobProject (SpecJob replaySpec)) nodes ?h2")
  have "out \<noteq> Some (Panic IndexOutOfRange)"
    using clearLoop_no_index_panic [OF runs, of w reqUUID "JobProject (SpecJob replaySpec)" ?h2] loop
    by simp
  then show ?thesis
    using Process_reaches_loop [OF None get flat] loop
    by (cases out) auto
qed

lemma Process_reaches_node:
  assumes upd: "repoUpdateStatus w h reqUUID ReplayStatusInProgress emptyReplayMessage = None"
    and get: "repoGetByID w (h @ [UpdateStatusCall reqUUID ReplayStatusInProgress emptyReplayMessage]) reqUUID
          = Inr replaySpec"
    and flat: "GetAllNodes w (SpecExecutionTree replaySpec) = Inr (map Some before @ Some nodeK # after)"
    and h2: "h2 = h @ [UpdateStatusCall reqUUID ReplayStatusInProgress emptyReplayMessage, GetByIDCall reqUUID]"
    and project: "project = JobProject (SpecJob replaySpec)"
    and ok: "clearsSucceed w project before h2"
    and runs: "NodeRuns nodeK \<noteq> []"
  shows "prefix (h2 @ map (clearCallOf project) before @ [clearCallOf project nodeK])
           (snd (Process w reqUUID h))"
proof -
  let ?hk = "h2 @ map (clearCallOf project) before"
  have loop: "clearLoop w reqUUID project (map Some before @ Some nodeK # after) h2 =
        clearLoop w reqUUID project (Some nodeK # after) ?hk"
    using ok by (rule clearLoop_succeed)
  have "prefix (?hk @ [clearCallOf project nodeK])
          (snd (clearLoop w reqUUID project (Some nodeK # after) ?hk))"
  proof (cases "schedulerClear w ?hk project (GetName nodeK) (hd (NodeRuns nodeK)) (last (NodeRuns nodeK))")
    case None
    obtain t where "snd (clearLoop w reqUUID project after (?hk @ [clearCallOf project nodeK]))
        = (?hk @ [clearCallOf project nodeK]) @ t"
      using clearLoop_extends by blast
    then show ?thesis
      using None runRange_nonempty [OF runs] by (simp add: clearCallOf_def prefix_def)
  next
    case (Some e)
    show ?thesis
      using clearLoop_fail [OF runs Some, of reqUUID after]
      by (simp add: Let_def prefix_def)
  qed
  moreover have "prefix (snd (clearLoop w reqUUID project (Some nodeK # after) ?hk)) (snd (Process w reqUUID h))"
    using Process_reaches_loop [OF upd get flat] loop
    by (simp add: h2 project prefix_def split: prod.splits option.splits)
  ultimately show ?thesis
    by (metis append.assoc prefix_order.order_trans)
qed

subsection \<open>Serialising a tree and reading it back\<close>

lemma foldl_addRun:
  "foldl addRun (TreeNode d deps rs) runs = TreeNode d deps (foldl Add rs runs)"
  by (induction runs arbitrary: rs) (simp_all add: addRun_def)

lemma foldl_AddDependent:
  "foldl AddDependent (TreeNode d deps rs) ds = TreeNode d (deps @ ds) rs"
  by (induction ds arbitrary: deps) (simp_all add: AddDependent_def)

lemma foldl_Add_sorted:
  "sorted (rs @ runs) \<Longrightarrow> distinct (rs @ runs) \<Longrightarrow> foldl Add rs runs = rs @ runs"
proof (induction runs arbitrary: rs)
  case Nil
  then show ?case by simp
next
  case (Cons r runs)
  have "Add rs r = rs @ [r]"
    using Cons.prems by (simp add: Add_def sorted_append sorted_insort_is_snoc)
  then show ?case
    using Cons.IH [of "rs @ [r]"] Cons.prems by simp
qed

lemma collect_Inr:
  "\<forall>x \<in> set xs. \<exists>y. f x = Inr y \<and> P x y \<Longrightarrow>
   \<exists>ys. collect (map f xs) = Inr ys \<and> list_all2 P xs ys"
proof (induction xs)
  case Nil
  then show ?case by simp
next
  case (Cons x xs)
  then obtain y where y: "f x = Inr y" "P x y" by auto
  from Cons obtain ys where ys: "collect (map f xs) = Inr ys" "list_all2 P xs ys" by auto
  show ?case using y ys by simp
qed

lemma collect_list_all2:
  "list_all2 (\<lambda>x y. f y = Inr x) xs ys \<Longrightarrow> collect (map f ys) = Inr xs"
  by (induction xs ys rule: list_all2_induct) simp_all

text \<open>
  What the two functions do by themselves: with a decoder that gives the payload of
  every node back, reading the persisted tree gives the tree again.
\<close>

lemma toTreeNode_fromTreeNode:
  "constructed T \<Longrightarrow>
   \<forall>n \<in> set (treeNodes T). decode (encode (NodeData n)) = Inr (NodeData n) \<Longrightarrow>
   \<exists>et. fromTreeNode (Some T) = Inr et \<and>
        toTreeNode decode (Some (map_ExecutionTree encode et)) = Inr (Some T)"
proof (induction T)
  case (TreeNode d deps runs)
  let ?P = "\<lambda>dep et. toTreeNode decode (Some (map_ExecutionTree encode et)) = Inr dep"
  have "\<forall>dep \<in> set deps. \<exists>et. fromTreeNode dep = Inr et \<and> ?P dep et"
  proof
    fix dep assume dep: "dep \<in> set deps"
    with TreeNode.prems(1) obtain n where n: "dep = Some n" "constructed n"
      by (cases dep) auto
    have "set (treeNodes n) \<subseteq> set (treeNodes (TreeNode d deps runs))"
      using dep n by force
    with TreeNode.prems(2)
    have "\<forall>m \<in> set (treeNodes n). decode (encode (NodeData m)) = Inr (NodeData m)"
      by blast
    with TreeNode.IH [of dep n] dep n
    show "\<exists>et. fromTreeNode dep = Inr et \<and> ?P dep et" by simp
  qed
  then obtain ys where ys: "collect (map fromTreeNode deps) = Inr ys" "list_all2 ?P deps ys"
    using collect_Inr [of deps fromTreeNode ?P] by blast
  have ser: "fromTreeNode (Some (TreeNode d deps runs)) = Inr (ExecutionTree d (map Some ys) runs)"
    using ys(1) by (simp add: Values_def)
  have "list_all2 (\<lambda>dep y. (toTreeNode decode \<circ> map_option (map_ExecutionTree encode) \<circ> Some) y = Inr dep) deps ys"
    using ys(2) by simp
  then have deser: "collect (map (toTreeNode decode \<circ> map_option (map_ExecutionTree encode) \<circ> Some) ys) = Inr deps"
    by (rule collect_list_all2)
  have payload: "decode (encode d) = Inr d"
    using TreeNode.prems(2) by simp
  have runs: "foldl Add [] runs = runs"
    using TreeNode.prems(1) foldl_Add_sorted [of "[]" runs] by simp
  have "toTreeNode decode (Some (map_ExecutionTree encode (ExecutionTree d (map Some ys) runs)))
        = Inr (Some (TreeNode d deps runs))"
    using deser payload runs
    by (simp add: NewTreeNode_def foldl_AddDependent foldl_addRun comp_def)
  with ser show ?case by simp
qed

text \<open>
  With the decoder of the library, no persisted job specification is decoded, so that
  reading a persisted tree gives \<^verbatim>\<open>nil\<close>, and \<^verbatim>\<open>ToSpec\<close> returns a specification
  without a tree and no error.
\<close>

lemma decodeJobSpec_persisted:
  "decodeJobSpec (Some (jsonOfJobSpec j)) =
    Inl (Error ''ID: source data must be an array or slice, got string'')"
  by (simp add: decodeJobSpec_def jsonOfJobSpec_def)

lemma toTreeNode_persisted: "toTreeNode decodeJobSpec (Some (persisted et)) = Inr None"
  by (cases et) (simp add: persisted_def decodeJobSpec_persisted)

lemma ToSpec_persisted_tree:
  assumes "jsonUnmarshalMessage c (RowMessage p) = Inr message"
    and "RowExecutionTree p = Some bytes"
    and "jsonUnmarshalTree c bytes = Inr (persisted et)"
    and "mapstructureDecode c = decodeJobSpec"
  shows "ToSpec c p jobSpec =
    Inr (\<lparr>SpecID = RowID p, SpecJob = jobSpec,
          SpecStartDate = RowStartDate p, SpecEndDate = RowEndDate p,
          SpecStatus = RowStatus p, SpecMessage = message,
          SpecExecutionTree = None, SpecCreatedAt = RowCreatedAt p\<rparr>, None)"
  using assms by (simp add: ToSpec_def toTreeNode_persisted)

subsection \<open>Constructed trees\<close>

lemma constructed_NewTreeNode: "constructed (NewTreeNode jobSpec)"
  by (simp add: NewTreeNode_def)

lemma constructed_AddDependent:
  "constructed t \<Longrightarrow> constructed d \<Longrightarrow> constructed (AddDependent t (Some d))"
  by (cases t) (simp add: AddDependent_def)

lemma constructed_addRun: "constructed t \<Longrightarrow> constructed (addRun t run)"
  by (cases t) (simp add: addRun_def Add_def sorted_insort distinct_insort)

subsection \<open>The first and the last of an ascending sequence\<close>

lemma ascending_first_is_Min:
  fixes t1 :: int
  assumes "sorted_wrt (<) (t1 # ts)"
  shows "Min (set (t1 # ts)) = t1"
proof (rule Min_eqI)
  show "finite (set (t1 # ts))" by simp
  show "t1 \<in> set (t1 # ts)" by simp
  fix y assume "y \<in> set (t1 # ts)"
  with assms show "t1 \<le> y" by auto
qed

lemma ascending_last_is_Max:
  fixes t1 :: int
  assumes "sorted_wrt (<) (t1 # ts)"
  shows "Max (set (t1 # ts)) = last (t1 # ts)"
proof (rule Max_eqI)
  show "finite (set (t1 # ts))" by simp
  show "last (t1 # ts) \<in> set (t1 # ts)" by (rule last_in_set) simp
  fix y assume y: "y \<in> set (t1 # ts)"
  obtain ys z where yz: "t1 # ts = ys @ [z]"
    by (cases "t1 # ts" rule: rev_cases) auto
  with assms have "\<forall>x \<in> set ys. x < z"
    by (simp add: sorted_wrt_append)
  with y yz show "y \<le> last (t1 # ts)" by auto
qed

subsection \<open>Corrupt payloads in \<^verbatim>\<open>ToSpec\<close>\<close>

lemma ToSpec_corrupt_message:
  "jsonUnmarshalMessage c (RowMessage p) = Inl err \<Longrightarrow> ToSpec c p jobSpec = Inr (emptyReplaySpec, None)"
  by (simp add: ToSpec_def)

lemma ToSpec_corrupt_tree:
  "jsonUnmarshalMessage c (RowMessage p) = Inr message \<Longrightarrow> RowExecutionTree p = Some bytes \<Longrightarrow>
   jsonUnmarshalTree c bytes = Inl err \<Longrightarrow> ToSpec c p jobSpec = Inr (emptyReplaySpec, Some err)"
  by (simp add: ToSpec_def)

section \<open>The claims\<close>

subsection \<open>The worker\<close>

text \<open>
  Claim C1 (fail-fast). The request is marked in progress and read back, and the flattened
  tree is visited in the order \<open>before\<close>, \<open>nodeK\<close>, \<open>after\<close>. If the scheduler clears
  every node of \<open>before\<close> and fails on \<open>nodeK\<close> with the error \<open>e\<close>, then the calls of
  \<^verbatim>\<open>Process\<close> are exactly: the two entry calls, one \<^verbatim>\<open>Clear\<close> for each node of
  \<open>before\<close> and one for \<open>nodeK\<close>, the warning, and the update of the status to
  \<^verbatim>\<open>Failed\<close> with a message that holds the name of \<open>nodeK\<close>'s job and the text of \<open>e\<close>.
  No node of \<open>after\<close> is cleared. When the repository accepts that update, \<^verbatim>\<open>Process\<close>
  returns \<open>e\<close> wrapped with the name of the job.
\<close>

theorem Process_fail_fast:
  assumes upd: "repoUpdateStatus w h reqUUID ReplayStatusInProgress emptyReplayMessage = None"
    and get: "repoGetByID w (h @ [UpdateStatusCall reqUUID ReplayStatusInProgress emptyReplayMessage]) reqUUID
          = Inr replaySpec"
    and flat: "GetAllNodes w (SpecExecutionTree replaySpec) = Inr (map Some before @ Some nodeK # after)"
    and h2: "h2 = h @ [UpdateStatusCall reqUUID ReplayStatusInProgress emptyReplayMessage, GetByIDCall reqUUID]"
    and project: "project = JobProject (SpecJob replaySpec)"
    and ok: "clearsSucceed w project before h2"
    and runs: "NodeRuns nodeK \<noteq> []"
    and fail: "schedulerClear w (h2 @ map (clearCallOf project) before) project
                 (GetName nodeK) (hd (NodeRuns nodeK)) (last (NodeRuns nodeK)) = Some e"
    and h3: "h3 = h2 @ map (clearCallOf project) (before @ [nodeK]) @
                 [LogW (''error while running replay '' @ reqUUID @ '': '' @
                        Message (failedMessage (GetName nodeK) e))]"
  shows "snd (Process w reqUUID h) =
           h3 @ [UpdateStatusCall reqUUID ReplayStatusFailed (failedMessage (GetName nodeK) e)]
       \<and> (repoUpdateStatus w h3 reqUUID ReplayStatusFailed (failedMessage (GetName nodeK) e) = None \<longrightarrow>
            fst (Process w reqUUID h) =
              Return (Some (Wrapf e (''error while clearing dag runs for job '' @ GetName nodeK))))"
  using Process_first_failure [OF upd get flat h2 project ok runs fail h3] by simp

theorem Process_fail_fast_witness:
  "clearsSucceed (scenario transformFails allFine) (ProjectSpec ''lake'') [ingestNode]
     [UpdateStatusCall ''replay-1'' ReplayStatusInProgress emptyReplayMessage, GetByIDCall ''replay-1'']
   \<and> snd (Process (scenario transformFails allFine) ''replay-1'' []) =
     [UpdateStatusCall ''replay-1'' ReplayStatusInProgress emptyReplayMessage,
      GetByIDCall ''replay-1'',
      ClearCall (ProjectSpec ''lake'') ''ingest'' 10 30,
      ClearCall (ProjectSpec ''lake'') ''transform'' 10 20,
      LogW ''error while running replay replay-1: error while clearing dag runs for job transform: dag not found'',
      UpdateStatusCall ''replay-1'' ReplayStatusFailed
        \<lparr>Type = ''failed to clear airflow dag run'',
         Message = ''error while clearing dag runs for job transform: dag not found''\<rparr>]
   \<and> fst (Process (scenario transformFails allFine) ''replay-1'' []) =
       Return (Some (Wrapf (Error ''dag not found'') ''error while clearing dag runs for job transform''))"
  using Process_fail_fast [of "scenario transformFails allFine" "[]" "''replay-1''" exampleReplay
      "[ingestNode]" transformNode "[]" _ _ "Error ''dag not found''", OF _ _ _ refl refl _ _ _ refl]
  by (simp add: scenario_def transformFails_def allFine_def exampleReplay_def preorder_def
      ingestNode_def transformNode_def ingest_def transform_def GetName_def clearCallOf_def
      failedMessage_def)

text \<open>
  Claim C2 (all-success). If the scheduler clears every node of the flattened tree (each
  is a node with a run, and its \<^verbatim>\<open>Clear\<close> call answers \<^verbatim>\<open>nil\<close>), then \<^verbatim>\<open>Process\<close>
  calls \<^verbatim>\<open>Clear\<close> once for each node, in the order of the visit, then
  \<^verbatim>\<open>UpdateStatus\<close> with the status \<^verbatim>\<open>Replayed\<close> and the empty message, and returns what
  that update returned: \<^verbatim>\<open>nil\<close> when it succeeded (the success is then logged), its
  error when it failed.
\<close>

theorem Process_all_success:
  assumes upd: "repoUpdateStatus w h reqUUID ReplayStatusInProgress emptyReplayMessage = None"
    and get: "repoGetByID w (h @ [UpdateStatusCall reqUUID ReplayStatusInProgress emptyReplayMessage]) reqUUID
          = Inr replaySpec"
    and flat: "GetAllNodes w (SpecExecutionTree replaySpec) = Inr (map Some nodes)"
    and h2: "h2 = h @ [UpdateStatusCall reqUUID ReplayStatusInProgress emptyReplayMessage, GetByIDCall reqUUID]"
    and project: "project = JobProject (SpecJob replaySpec)"
    and ok: "clearsSucceed w project nodes h2"
    and h3: "h3 = h2 @ map (clearCallOf project) nodes"
  shows "snd (Process w reqUUID h) =
           h3 @ UpdateStatusCall reqUUID ReplayStatusReplayed emptyReplayMessage #
             (case repoUpdateStatus w h3 reqUUID ReplayStatusReplayed emptyReplayMessage of
                None \<Rightarrow> [LogI (''successfully cleared instances of replay id: '' @ reqUUID)]
              | Some err \<Rightarrow> [])
       \<and> fst (Process w reqUUID h) =
           Return (repoUpdateStatus w h3 reqUUID ReplayStatusReplayed emptyReplayMessage)"
  using Process_all_cleared [OF upd get flat h2 project ok h3] by simp

theorem Process_all_success_witness:
  "clearsSucceed (scenario allFine allFine) (ProjectSpec ''lake'') [ingestNode, transformNode]
     [UpdateStatusCall ''replay-1'' ReplayStatusInProgress emptyReplayMessage, GetByIDCall ''replay-1'']
   \<and> snd (Process (scenario allFine allFine) ''replay-1'' []) =
     [UpdateStatusCall ''replay-1'' ReplayStatusInProgress emptyReplayMessage,
      GetByIDCall ''replay-1'',
      ClearCall (ProjectSpec ''lake'') ''ingest'' 10 30,
      ClearCall (ProjectSpec ''lake'') ''transform'' 10 20,
      UpdateStatusCall ''replay-1'' ReplayStatusReplayed emptyReplayMessage,
      LogI ''successfully cleared instances of replay id: replay-1'']
   \<and> fst (Process (scenario allFine allFine) ''replay-1'' []) = Return None"
  using Process_all_success [of "scenario allFine allFine" "[]" "''replay-1''" exampleReplay
      "[ingestNode, transformNode]", OF _ _ _ refl refl _ refl]
  by (simp add: scenario_def allFine_def exampleReplay_def preorder_def
      ingestNode_def transformNode_def ingest_def transform_def GetName_def clearCallOf_def)

text \<open>
  Claim C3 (masked clear error). If the clearing of a node fails and the update that
  records the status \<^verbatim>\<open>Failed\<close> fails too, then \<^verbatim>\<open>Process\<close> returns the error of the
  update; the error of the scheduler is not returned.
\<close>

theorem Process_failed_update_masks:
  assumes upd: "repoUpdateStatus w h reqUUID ReplayStatusInProgress emptyReplayMessage = None"
    and get: "repoGetByID w (h @ [UpdateStatusCall reqUUID ReplayStatusInProgress emptyReplayMessage]) reqUUID
          = Inr replaySpec"
    and flat: "GetAllNodes w (SpecExecutionTree replaySpec) = Inr (map Some before @ Some nodeK # after)"
    and h2: "h2 = h @ [UpdateStatusCall reqUUID ReplayStatusInProgress emptyReplayMessage, GetByIDCall reqUUID]"
    and project: "project = JobProject (SpecJob replaySpec)"
    and ok: "clearsSucceed w project before h2"
    and runs: "NodeRuns nodeK \<noteq> []"
    and fail: "schedulerClear w (h2 @ map (clearCallOf project) before) project
                 (GetName nodeK) (hd (NodeRuns nodeK)) (last (NodeRuns nodeK)) = Some e"
    and h3: "h3 = h2 @ map (clearCallOf project) (before @ [nodeK]) @
                 [LogW (''error while running replay '' @ reqUUID @ '': '' @
                        Message (failedMessage (GetName nodeK) e))]"
    and updFailed: "repoUpdateStatus w h3 reqUUID ReplayStatusFailed (failedMessage (GetName nodeK) e)
                 = Some updateStatusErr"
  shows "fst (Process w reqUUID h) = Return (Some updateStatusErr)"
  using Process_first_failure [OF upd get flat h2 project ok runs fail h3] updFailed by simp

theorem Process_failed_update_masks_witness:
  "schedulerClear (scenario transformFails (storageDownOn ReplayStatusFailed))
      [UpdateStatusCall ''replay-1'' ReplayStatusInProgress emptyReplayMessage, GetByIDCall ''replay-1'',
       ClearCall (ProjectSpec ''lake'') ''ingest'' 10 30]
      (ProjectSpec ''lake'') ''transform'' 10 20 = Some (Error ''dag not found'')
   \<and> fst (Process (scenario transformFails (storageDownOn ReplayStatusFailed)) ''replay-1'' []) =
       Return (Some (Error ''storage unavailable''))
   \<and> Error ''storage unavailable'' \<noteq>
       Wrapf (Error ''dag not found'') ''error while clearing dag runs for job transform''"
  using Process_failed_update_masks [of "scenario transformFails (storageDownOn ReplayStatusFailed)" "[]"
      "''replay-1''" exampleReplay "[ingestNode]" transformNode "[]" _ _ "Error ''dag not found''" _
      "Error ''storage unavailable''", OF _ _ _ refl refl _ _ _ refl]
  by (simp add: scenario_def transformFails_def storageDownOn_def exampleReplay_def preorder_def
      ingestNode_def transformNode_def ingest_def transform_def GetName_def clearCallOf_def
      failedMessage_def ReplayStatusFailed_def ReplayStatusInProgress_def Wrapf_def)

text \<open>
  Claim C4. When the first \<^verbatim>\<open>UpdateStatus\<close> call, which marks the request
  \<^verbatim>\<open>InProgress\<close>, fails, \<^verbatim>\<open>Process\<close> returns that error, and the only call it has made
  is that status update: no \<^verbatim>\<open>Clear\<close>, no \<^verbatim>\<open>GetByID\<close>, no further status update.
\<close>

theorem Process_inProgress_fails:
  assumes "repoUpdateStatus w h reqUUID ReplayStatusInProgress emptyReplayMessage = Some e"
  shows "Process w reqUUID h =
    (Return (Some e), h @ [UpdateStatusCall reqUUID ReplayStatusInProgress emptyReplayMessage])"
  using assms by (simp add: Process_def)

theorem Process_inProgress_fails_witness:
  "repoUpdateStatus (scenario allFine (storageDownOn ReplayStatusInProgress)) []
     ''replay-1'' ReplayStatusInProgress emptyReplayMessage = Some (Error ''storage unavailable'')
   \<and> Process (scenario allFine (storageDownOn ReplayStatusInProgress)) ''replay-1'' [] =
     (Return (Some (Error ''storage unavailable'')),
      [UpdateStatusCall ''replay-1'' ReplayStatusInProgress emptyReplayMessage])"
proof -
  have h: "repoUpdateStatus (scenario allFine (storageDownOn ReplayStatusInProgress)) []
     ''replay-1'' ReplayStatusInProgress emptyReplayMessage = Some (Error ''storage unavailable'')"
    by (simp add: scenario_def storageDownOn_def)
  show ?thesis
    using h Process_inProgress_fails [OF h] by simp
qed

text \<open>
  Claim C7, as the code has it. When the clearing of a node fails, the message recorded
  with the status \<^verbatim>\<open>Failed\<close> has the kind \<open>failed to clear airflow dag run\<close>, the
  value of the constant \<^verbatim>\<open>AirflowClearDagRunFailed\<close>, and its detail is the text of the
  wrapped error, in which the name of the failing node's job occurs. The kind is not
  \<open>scheduler clear failed\<close>, as the example shows first.
\<close>

theorem failed_kind_counterexample:
  "UpdateStatusCall ''replay-1'' ReplayStatusFailed
     \<lparr>Type = ''failed to clear airflow dag run'',
      Message = ''error while clearing dag runs for job transform: dag not found''\<rparr>
     \<in> set (snd (Process (scenario transformFails allFine) ''replay-1'' []))
   \<and> Type \<lparr>Type = ''failed to clear airflow dag run'',
            Message = ''error while clearing dag runs for job transform: dag not found''\<rparr>
       \<noteq> ''scheduler clear failed''"
  by (simp add: Process_def scenario_def transformFails_def allFine_def exampleReplay_def preorder_def
      ingestNode_def transformNode_def ingest_def transform_def GetName_def runRange_def index_def
      Values_def Size_def Let_def Wrapf_def AirflowClearDagRunFailed_def)

theorem failed_message_kind_and_detail:
  assumes upd: "repoUpdateStatus w h reqUUID ReplayStatusInProgress emptyReplayMessage = None"
    and get: "repoGetByID w (h @ [UpdateStatusCall reqUUID ReplayStatusInProgress emptyReplayMessage]) reqUUID
          = Inr replaySpec"
    and flat: "GetAllNodes w (SpecExecutionTree replaySpec) = Inr (map Some before @ Some nodeK # after)"
    and h2: "h2 = h @ [UpdateStatusCall reqUUID ReplayStatusInProgress emptyReplayMessage, GetByIDCall reqUUID]"
    and project: "project = JobProject (SpecJob replaySpec)"
    and ok: "clearsSucceed w project before h2"
    and runs: "NodeRuns nodeK \<noteq> []"
    and fail: "schedulerClear w (h2 @ map (clearCallOf project) before) project
                 (GetName nodeK) (hd (NodeRuns nodeK)) (last (NodeRuns nodeK)) = Some e"
    and detail: "detail = ''error while clearing dag runs for job '' @ GetName nodeK @ '': '' @ errorText e"
  shows "last (snd (Process w reqUUID h)) =
           UpdateStatusCall reqUUID ReplayStatusFailed
             \<lparr>Type = ''failed to clear airflow dag run'', Message = detail\<rparr>
       \<and> sublist (GetName nodeK) detail"
proof -
  have "sublist (GetName nodeK) detail"
    unfolding detail by (rule sublist_appendI)
  then show ?thesis
    using Process_first_failure [OF upd get flat h2 project ok runs fail refl]
    by (simp add: failedMessage_def detail)
qed

theorem failed_message_kind_and_detail_witness:
  "schedulerClear (scenario transformFails allFine)
      [UpdateStatusCall ''replay-1'' ReplayStatusInProgress emptyReplayMessage, GetByIDCall ''replay-1'',
       ClearCall (ProjectSpec ''lake'') ''ingest'' 10 30]
      (ProjectSpec ''lake'') ''transform'' 10 20 = Some (Error ''dag not found'')
   \<and> last (snd (Process (scenario transformFails allFine) ''replay-1'' [])) =
       UpdateStatusCall ''replay-1'' ReplayStatusFailed
         \<lparr>Type = ''failed to clear airflow dag run'',
          Message = ''error while clearing dag runs for job transform: dag not found''\<rparr>
   \<and> sublist ''transform'' ''error while clearing dag runs for job transform: dag not found''"
  using failed_message_kind_and_detail [of "scenario transformFails allFine" "[]" "''replay-1''"
      exampleReplay "[ingestNode]" transformNode "[]" _ _ "Error ''dag not found''", OF _ _ _ refl refl _ _ _ refl]
  by (simp add: scenario_def transformFails_def allFine_def exampleReplay_def preorder_def
      ingestNode_def transformNode_def ingest_def transform_def GetName_def clearCallOf_def)

text \<open>
  Claim C8 (run range). When \<^verbatim>\<open>Process\<close> reaches a node whose runs are the ascending
  sequence \<open>t1 < \<dots> < tn\<close>, the two reads of the loop body give \<open>(t1, tn)\<close>, the
  \<^verbatim>\<open>Clear\<close> call it makes for that node has the start \<open>t1\<close> and the end \<open>tn\<close>, and
  these are the earliest and the latest run of the node.
\<close>

theorem Process_clear_range:
  assumes upd: "repoUpdateStatus w h reqUUID ReplayStatusInProgress emptyReplayMessage = None"
    and get: "repoGetByID w (h @ [UpdateStatusCall reqUUID ReplayStatusInProgress emptyReplayMessage]) reqUUID
          = Inr replaySpec"
    and flat: "GetAllNodes w (SpecExecutionTree replaySpec) = Inr (map Some before @ Some nodeK # after)"
    and h2: "h2 = h @ [UpdateStatusCall reqUUID ReplayStatusInProgress emptyReplayMessage, GetByIDCall reqUUID]"
    and project: "project = JobProject (SpecJob replaySpec)"
    and ok: "clearsSucceed w project before h2"
    and runsK: "NodeRuns nodeK = t1 # ts"
    and asc: "sorted_wrt (<) (t1 # ts)"
    and tn: "tn = last (t1 # ts)"
  shows "runRange nodeK = Inr (t1, tn)
       \<and> prefix (h2 @ map (clearCallOf project) before @ [ClearCall project (GetName nodeK) t1 tn])
           (snd (Process w reqUUID h))
       \<and> t1 = Min (set (t1 # ts)) \<and> tn = Max (set (t1 # ts))"
proof -
  have runs: "NodeRuns nodeK \<noteq> []" using runsK by simp
  have "runRange nodeK = Inr (t1, tn)"
    using runRange_nonempty [OF runs] runsK tn by simp
  moreover have "clearCallOf project nodeK = ClearCall project (GetName nodeK) t1 tn"
    using runsK tn by (simp add: clearCallOf_def)
  ultimately show ?thesis
    using Process_reaches_node [OF upd get flat h2 project ok runs]
      ascending_first_is_Min [OF asc] ascending_last_is_Max [OF asc] tn
    by simp
qed

theorem Process_clear_range_witness:
  "NodeRuns ingestNode = 10 # [20, 30] \<and> sorted_wrt (<) (10 # [20, 30 :: int])
   \<and> runRange ingestNode = Inr (10, 30)
   \<and> prefix ([UpdateStatusCall ''replay-1'' ReplayStatusInProgress emptyReplayMessage,
               GetByIDCall ''replay-1'', ClearCall (ProjectSpec ''lake'') ''ingest'' 10 30])
        (snd (Process (scenario allFine allFine) ''replay-1'' []))
   \<and> (10 :: int) = Min (set (10 # [20, 30])) \<and> (30 :: int) = Max (set (10 # [20, 30]))"
  using Process_clear_range [of "scenario allFine allFine" "[]" "''replay-1''" exampleReplay
      "[]" ingestNode "[Some transformNode]" _ _ 10 "[20, 30]" 30, OF _ _ _ refl refl]
  by (simp add: scenario_def allFine_def exampleReplay_def preorder_def
      ingestNode_def transformNode_def ingest_def transform_def GetName_def)

text \<open>
  Claim C9 (index safety). If every node of the replay's execution tree has a run, and
  the flattening yields nodes of that tree, then \<^verbatim>\<open>Process\<close> does not panic with an
  index out of range: the reads \<^verbatim>\<open>runTimes[0]\<close> and
  \<^verbatim>\<open>runTimes[treeNode.Runs.Size()-1]\<close> are in bounds at every node it visits.
\<close>

theorem Process_index_in_bounds:
  assumes get: "repoGetByID w (h @ [UpdateStatusCall reqUUID ReplayStatusInProgress emptyReplayMessage]) reqUUID
          = Inr replaySpec"
    and tree: "SpecExecutionTree replaySpec = Some root"
    and flat: "GetAllNodes w (Some root) = Inr nodes"
    and sub: "\<forall>n. Some n \<in> set nodes \<longrightarrow> n \<in> set (treeNodes root)"
    and runs: "\<forall>n \<in> set (treeNodes root). NodeRuns n \<noteq> []"
  shows "fst (Process w reqUUID h) \<noteq> Panic IndexOutOfRange"
proof -
  have "\<forall>n. Some n \<in> set nodes \<longrightarrow> NodeRuns n \<noteq> []"
    using sub runs by blast
  then show ?thesis
    using Process_no_index_panic [OF get, of nodes] flat tree by simp
qed

theorem Process_index_in_bounds_witness:
  "list_all (\<lambda>n. NodeRuns n \<noteq> []) (treeNodes ingestNode)
   \<and> fst (Process (scenario allFine allFine) ''replay-1'' []) \<noteq> Panic IndexOutOfRange"
  using Process_index_in_bounds [of "scenario allFine allFine" "[]" "''replay-1''" exampleReplay
      ingestNode "map Some (treeNodes ingestNode)"]
  by (simp add: scenario_def allFine_def exampleReplay_def preorder_def
      ingestNode_def transformNode_def)

text \<open>
  Claim C10 (project of the root job). Every \<^verbatim>\<open>Clear\<close> call that \<^verbatim>\<open>Process\<close> makes
  carries the project of the replay's own job, \<^verbatim>\<open>replaySpec.Job.Project\<close>, whatever
  project the visited node's job belongs to. In the example the job \<open>transform\<close>
  belongs to the project \<open>mart\<close> and is cleared with the project \<open>lake\<close> of the
  root job.
\<close>

theorem Process_clear_project:
  assumes get: "repoGetByID w (h @ [UpdateStatusCall reqUUID ReplayStatusInProgress emptyReplayMessage]) reqUUID
          = Inr replaySpec"
  shows "\<forall>project jobName startTime endTime.
           ClearCall project jobName startTime endTime \<in> set (drop (length h) (snd (Process w reqUUID h)))
           \<longrightarrow> project = JobProject (SpecJob replaySpec)"
proof -
  obtain t where t: "snd (Process w reqUUID h) = h @ t"
    "\<forall>p n s e. ClearCall p n s e \<in> set t \<longrightarrow> p = JobProject (SpecJob replaySpec)"
    using Process_extends [OF get] by blast
  from t(2) show ?thesis
    unfolding t(1) by simp
qed

theorem Process_clear_project_witness:
  "ClearCall (ProjectSpec ''lake'') ''transform'' 10 20
     \<in> set (drop (length ([] :: call list)) (snd (Process (scenario allFine allFine) ''replay-1'' [])))
   \<and> JobProject (NodeData transformNode) = ProjectSpec ''mart''
   \<and> ProjectSpec ''lake'' = JobProject (SpecJob exampleReplay)"
proof -
  have get: "repoGetByID (scenario allFine allFine)
      ([] @ [UpdateStatusCall ''replay-1'' ReplayStatusInProgress emptyReplayMessage]) ''replay-1''
      = Inr exampleReplay"
    by (simp add: scenario_def)
  have calls: "snd (Process (scenario allFine allFine) ''replay-1'' []) =
     [UpdateStatusCall ''replay-1'' ReplayStatusInProgress emptyReplayMessage,
      GetByIDCall ''replay-1'',
      ClearCall (ProjectSpec ''lake'') ''ingest'' 10 30,
      ClearCall (ProjectSpec ''lake'') ''transform'' 10 20,
      UpdateStatusCall ''replay-1'' ReplayStatusReplayed emptyReplayMessage,
      LogI ''successfully cleared instances of replay id: replay-1'']"
    by (simp add: Process_def scenario_def allFine_def exampleReplay_def preorder_def
      ingestNode_def transformNode_def ingest_def transform_def GetName_def runRange_def index_def
      Values_def Size_def Let_def)
  have made: "ClearCall (ProjectSpec ''lake'') ''transform'' 10 20
     \<in> set (drop (length ([] :: call list)) (snd (Process (scenario allFine allFine) ''replay-1'' [])))"
    unfolding calls by simp
  have "ProjectSpec ''lake'' = JobProject (SpecJob exampleReplay)"
    using Process_clear_project [OF get] made by blast
  with made show ?thesis
    by (simp add: transformNode_def transform_def)
qed

subsection \<open>The repository\<close>

text \<open>
  Claim C5 (tree round trip), at a constructed tree of one node. The claim says that
  reading back what was persisted gives the tree again. \<^verbatim>\<open>fromTreeNode\<close> persists
  the node with its job and its three runs; in what \<^verbatim>\<open>json\<close> reads back the job's
  identifier is a string, \<^verbatim>\<open>mapstructure.Decode\<close> refuses it, and \<^verbatim>\<open>toTreeNode\<close>
  answers that error with \<^verbatim>\<open>nil\<close>: the tree read back is no tree.
\<close>

theorem round_trip_gives_nil:
  "constructed storedNode
   \<and> fromTreeNode (Some storedNode) = Inr (ExecutionTree storedJob [] [10, 20, 30])
   \<and> toTreeNode decodeJobSpec (Some (persisted (ExecutionTree storedJob [] [10, 20, 30]))) = Inr None"
  by (simp add: storedNode_def Values_def persisted_def decodeJobSpec_persisted)

text \<open>
  Claim C6 (corrupt payloads), at a row whose message column does not parse.
  \<^verbatim>\<open>ToSpec\<close> answers the failure of \<^verbatim>\<open>json.Unmarshal\<close> on the message with the empty
  specification and the error \<^verbatim>\<open>nil\<close>, so \<^verbatim>\<open>GetByID\<close> returns no error for that
  row. (On a tree column that does not parse it returns the error of the parser.)
\<close>

theorem GetByID_corrupt_message:
  "GetByID exampleDatabase exampleCodec ''replay-1'' = Inr (emptyReplaySpec, None)"
  by (simp add: GetByID_def ToSpec_def exampleDatabase_def exampleCodec_def corruptMessageRow_def)

end
